theory Spec2Isabelle
  imports Complex_Main "HOL-Library.Product_Lexorder"
begin

section \<open>Numbers, timestamps, series and frames\<close>

text \<open>
  A cell of a pandas column is a float64.  Rounding, overflow and signed zeros are not
  modelled: a cell is a real number, an infinity, or NaN (the "undefined" value of the
  specification).  Scalars that configure a run (cost rates, starting equity) are
  finite numbers.
\<close>

datatype fl = Fin real | PInf | NInf | NaN

fun isna :: "fl \<Rightarrow> bool" where
  "isna NaN = True"
| "isna _ = False"

fun fl_neg :: "fl \<Rightarrow> fl" where
  "fl_neg (Fin a) = Fin (- a)"
| "fl_neg PInf = NInf"
| "fl_neg NInf = PInf"
| "fl_neg NaN = NaN"

fun fl_add :: "fl \<Rightarrow> fl \<Rightarrow> fl" where
  "fl_add NaN _ = NaN"
| "fl_add _ NaN = NaN"
| "fl_add (Fin a) (Fin b) = Fin (a + b)"
| "fl_add PInf NInf = NaN"
| "fl_add NInf PInf = NaN"
| "fl_add PInf _ = PInf"
| "fl_add _ PInf = PInf"
| "fl_add NInf _ = NInf"
| "fl_add _ NInf = NInf"

definition fl_sub :: "fl \<Rightarrow> fl \<Rightarrow> fl" where
  "fl_sub a b = fl_add a (fl_neg b)"

fun fl_scale :: "fl \<Rightarrow> real \<Rightarrow> fl" where
  "fl_scale (Fin a) c = Fin (a * c)"
| "fl_scale NaN c = NaN"
| "fl_scale PInf c = (if c = 0 then NaN else if 0 < c then PInf else NInf)"
| "fl_scale NInf c = (if c = 0 then NaN else if 0 < c then NInf else PInf)"

fun fl_mul :: "fl \<Rightarrow> fl \<Rightarrow> fl" where
  "fl_mul a (Fin c) = fl_scale a c"
| "fl_mul (Fin c) b = fl_scale b c"
| "fl_mul NaN _ = NaN"
| "fl_mul _ NaN = NaN"
| "fl_mul PInf PInf = PInf"
| "fl_mul NInf NInf = PInf"
| "fl_mul PInf NInf = NInf"
| "fl_mul NInf PInf = NInf"

fun fl_abs :: "fl \<Rightarrow> fl" where
  "fl_abs (Fin a) = Fin \<bar>a\<bar>"
| "fl_abs PInf = PInf"
| "fl_abs NInf = PInf"
| "fl_abs NaN = NaN"

text \<open>IEEE comparison: every comparison with NaN is false.\<close>

fun fl_less :: "fl \<Rightarrow> fl \<Rightarrow> bool" where
  "fl_less NaN _ = False"
| "fl_less _ NaN = False"
| "fl_less (Fin a) (Fin b) = (a < b)"
| "fl_less _ NInf = False"
| "fl_less PInf _ = False"
| "fl_less NInf _ = True"
| "fl_less _ PInf = True"

fun fl_le :: "fl \<Rightarrow> fl \<Rightarrow> bool" where
  "fl_le NaN _ = False"
| "fl_le _ NaN = False"
| "fl_le a b = (a = b \<or> fl_less a b)"

text \<open>
  A timestamp is a calendar date (year, month, day) of a daily bar; dates are compared
  lexicographically.
\<close>

type_synonym timestamp = "int \<times> nat \<times> nat"

text \<open>A pandas Series: labels paired with cells, in order.\<close>

type_synonym series = "(timestamp \<times> fl) list"

text \<open>
  A pandas DataFrame: the column names, and one row per label holding a cell for every
  column name.
\<close>

record dataframe =
  col_names :: "string list"
  rows :: "(timestamp \<times> (string \<Rightarrow> fl)) list"

definition df_index :: "dataframe \<Rightarrow> timestamp list" where
  "df_index df = map fst (rows df)"

text \<open>\<^verbatim>\<open>df.get(c)\<close>: the column as a Series on the frame's index, or None.\<close>

definition df_get :: "dataframe \<Rightarrow> string \<Rightarrow> series option" where
  "df_get df c =
     (if c \<in> set (col_names df) then Some (map (\<lambda>(t, r). (t, r c)) (rows df)) else None)"

datatype error = ValueError string | AssertionError | KeyError string | IndexError

subsection \<open>Series operations used by the backtester\<close>

definition fillna :: "real \<Rightarrow> series \<Rightarrow> series" where
  "fillna c s = map (\<lambda>(t, v). (t, if isna v then Fin c else v)) s"

text \<open>\<^verbatim>\<open>s.shift(1)\<close>: every value moves one row down, the first row becomes NaN.\<close>

definition shift1 :: "series \<Rightarrow> series" where
  "shift1 s = zip (map fst s) (NaN # map snd s)"

text \<open>
  Binary operations between two Series on the same index are elementwise; every use in
  the backtester has both operands on the frame's index.
\<close>

definition s_zip :: "(fl \<Rightarrow> fl \<Rightarrow> fl) \<Rightarrow> series \<Rightarrow> series \<Rightarrow> series" where
  "s_zip f a b = map (\<lambda>((t, x), (u, y)). (t, f x y)) (zip a b)"

definition s_map :: "(fl \<Rightarrow> fl) \<Rightarrow> series \<Rightarrow> series" where
  "s_map f a = map (\<lambda>(t, x). (t, f x)) a"

text \<open>
  \<^verbatim>\<open>s.cumprod()\<close> skips NaN: a NaN row stays NaN and does not enter the running
  product.
\<close>

fun cumprod_from :: "fl \<Rightarrow> series \<Rightarrow> series" where
  "cumprod_from acc [] = []"
| "cumprod_from acc ((t, v) # s) =
     (if isna v then (t, NaN) # cumprod_from acc s
      else (t, fl_mul acc v) # cumprod_from (fl_mul acc v) s)"

definition cumprod :: "series \<Rightarrow> series" where
  "cumprod s = cumprod_from (Fin 1) s"

text \<open>
  \<^verbatim>\<open>s.reindex(idx)\<close>: a Series whose labels equal the target is returned as it is; a
  Series with repeated labels cannot be reindexed; otherwise each target label takes
  the value stored under it, or NaN.
\<close>

definition reindex :: "series \<Rightarrow> timestamp list \<Rightarrow> error + series" where
  "reindex s idx =
     (if map fst s = idx then Inr s
      else if \<not> distinct (map fst s)
        then Inl (ValueError ''cannot reindex on an axis with duplicate labels'')
      else Inr (map (\<lambda>t. (t, case map_of s t of None \<Rightarrow> NaN | Some v \<Rightarrow> v)) idx))"

section \<open>backtester.py\<close>

record CostModel =
  commission_bps :: real
  slippage_bps :: real

record BacktestResult =
  equity :: series
  returns :: series
  position :: series
  turnover :: series
  costs :: series

definition MissingData :: error where
  "MissingData = ValueError ''DataFrame must include RetSimple column; use data_loader.load_data''"

definition run_backtest ::
  "dataframe \<Rightarrow> series \<Rightarrow> CostModel option \<Rightarrow> real \<Rightarrow> error + BacktestResult" where
  "run_backtest df posn cost starting_equity =
     (let cm = (case cost of None \<Rightarrow> \<lparr>commission_bps = 0, slippage_bps = 0\<rparr> | Some c \<Rightarrow> c) in
      case df_get df ''RetSimple'' of
        None \<Rightarrow> Inl MissingData
      | Some ret \<Rightarrow>
          if list_all (\<lambda>(t, v). isna v) ret then Inl MissingData
          else (case reindex posn (df_index df) of
                  Inl e \<Rightarrow> Inl e
                | Inr pos0 \<Rightarrow>
                    let pos = fillna 0 pos0;
                        pos_shift = fillna 0 (shift1 pos);
                        pnl = s_zip fl_mul pos_shift ret;
                        turn = s_map fl_abs (s_zip fl_sub pos pos_shift);
                        per_trade_bps = commission_bps cm + slippage_bps cm;
                        cst = s_map (\<lambda>v. fl_scale v (per_trade_bps / 10000)) turn;
                        net_ret = s_zip fl_sub pnl cst;
                        eq = s_map (\<lambda>v. fl_scale v starting_equity)
                               (cumprod (s_map (fl_add (Fin 1)) net_ret))
                    in Inr \<lparr>equity = eq, returns = net_ret, position = pos,
                            turnover = turn, costs = cst\<rparr>))"

text \<open>The cost per unit of turnover that a cost model stands for.\<close>

definition cost_rate :: "CostModel option \<Rightarrow> real" where
  "cost_rate cost =
     (case cost of None \<Rightarrow> 0 | Some c \<Rightarrow> (commission_bps c + slippage_bps c) / 10000)"

text \<open>The condition of the guard at the head of \<^verbatim>\<open>run_backtest\<close>.\<close>

definition missing_returns :: "dataframe \<Rightarrow> bool" where
  "missing_returns df =
     (case df_get df ''RetSimple'' of None \<Rightarrow> True | Some ret \<Rightarrow> list_all (\<lambda>(t, v). isna v) ret)"

text \<open>A cell that holds a number.\<close>

fun is_fin :: "fl \<Rightarrow> bool" where
  "is_fin (Fin a) = True"
| "is_fin _ = False"

text \<open>
  Two cells of two runs compared: both NaN, or both numbers, the first non-negative and
  at most the second.
\<close>

fun cell_le :: "fl \<Rightarrow> fl \<Rightarrow> bool" where
  "cell_le NaN NaN = True"
| "cell_le (Fin b) (Fin a) = (0 \<le> b \<and> b \<le> a)"
| "cell_le _ _ = False"

section \<open>strategy_template.py\<close>

text \<open>
  A parameter mapping: names with numeric values, in insertion order.  The names of a
  dict are pairwise different.
\<close>

type_synonym params = "(string \<times> real) list"

text \<open>\<^verbatim>\<open>params.get(k, d)\<close>.\<close>

definition params_get :: "params \<Rightarrow> string \<Rightarrow> real \<Rightarrow> real" where
  "params_get p k d = (case map_of p k of None \<Rightarrow> d | Some v \<Rightarrow> v)"

text \<open>\<^verbatim>\<open>int(x)\<close> truncates towards zero.\<close>

definition py_int :: "real \<Rightarrow> int" where
  "py_int x = (if 0 \<le> x then \<lfloor>x\<rfloor> else \<lceil>x\<rceil>)"

text \<open>
  A strategy maps a frame and parameters to a position series, or raises.  It reads the
  frame and leaves it as it is.
\<close>

type_synonym StrategyFn = "dataframe \<Rightarrow> params \<Rightarrow> error + series"

text \<open>
  Division of cells.  A non-zero number divided by zero is an infinity with the sign of
  the numerator (zero carries no sign here); zero by zero and infinity by infinity are
  NaN.
\<close>

fun fl_div :: "fl \<Rightarrow> fl \<Rightarrow> fl" where
  "fl_div NaN _ = NaN"
| "fl_div _ NaN = NaN"
| "fl_div (Fin a) (Fin b) =
     (if b = 0 then (if a = 0 then NaN else if 0 < a then PInf else NInf) else Fin (a / b))"
| "fl_div (Fin a) _ = Fin 0"
| "fl_div PInf (Fin b) = (if 0 \<le> b then PInf else NInf)"
| "fl_div NInf (Fin b) = (if 0 \<le> b then NInf else PInf)"
| "fl_div _ _ = NaN"

text \<open>
  \<^verbatim>\<open>s.rolling(w, min_periods=w).mean()\<close> on the values of a column: the mean of the
  last \<open>w\<close> values where \<open>w\<close> values are there and none is NaN, NaN elsewhere.  A
  negative \<open>w\<close> is rejected, and an empty window has no mean.
\<close>

definition window_mean :: "nat \<Rightarrow> fl list \<Rightarrow> nat \<Rightarrow> fl" where
  "window_mean w xs i =
     (if w = 0 \<or> i + 1 < w then NaN
      else let win = take w (drop (i + 1 - w) xs) in
           if list_ex isna win then NaN
           else fl_scale (foldl fl_add (Fin 0) win) (1 / real w))"

definition rolling_mean :: "int \<Rightarrow> fl list \<Rightarrow> error + fl list" where
  "rolling_mean w xs =
     (if w < 0 then Inl (ValueError ''min_periods must be >= 0'')
      else Inr (map (window_mean (nat w) xs) [0..<length xs]))"

text \<open>\<^verbatim>\<open>pos.mask(cond, v)\<close>: the value \<open>v\<close> where the condition holds.\<close>

definition mask_s :: "fl list \<Rightarrow> bool list \<Rightarrow> fl \<Rightarrow> fl list" where
  "mask_s xs cond v = map (\<lambda>(x, c). if c then v else x) (zip xs cond)"

text \<open>\<^verbatim>\<open>s.ffill()\<close>: a NaN takes the last value before it that is not NaN, if any.\<close>

fun ffill_from :: "fl \<Rightarrow> fl list \<Rightarrow> fl list" where
  "ffill_from prev [] = []"
| "ffill_from prev (v # vs) =
     (if isna v then prev # ffill_from prev vs else v # ffill_from v vs)"

definition ffill :: "fl list \<Rightarrow> fl list" where
  "ffill xs = ffill_from NaN xs"

text \<open>\<^verbatim>\<open>s.clip(lo, hi)\<close>; NaN stays NaN.\<close>

fun fl_clip :: "real \<Rightarrow> real \<Rightarrow> fl \<Rightarrow> fl" where
  "fl_clip lo hi (Fin a) = Fin (min hi (max lo a))"
| "fl_clip lo hi PInf = Fin hi"
| "fl_clip lo hi NInf = Fin lo"
| "fl_clip lo hi NaN = NaN"

definition ma_cross :: StrategyFn where
  "ma_cross df params =
     (let fast = py_int (params_get params ''fast'' 20);
          slow = py_int (params_get params ''slow'' 100);
          nz_bps = params_get params ''neutral_zone'' 0
      in case df_get df ''Close'' of
           None \<Rightarrow> Inl (KeyError ''Close'')
         | Some close \<Rightarrow>
            (case rolling_mean fast (map snd close) of
               Inl e \<Rightarrow> Inl e
             | Inr ma_f \<Rightarrow>
                (case rolling_mean slow (map snd close) of
                   Inl e \<Rightarrow> Inl e
                 | Inr ma_s \<Rightarrow>
                    let spread = map (\<lambda>(f, s). fl_div (fl_sub f s) s) (zip ma_f ma_s);
                        pos0 = map (\<lambda>_. Fin 0) close;
                        buy = map (\<lambda>x. fl_less (Fin (nz_bps / 10000)) x) spread;
                        sell = map (\<lambda>x. fl_less x (Fin (- (nz_bps / 10000)))) spread;
                        pos1 = mask_s pos0 buy (Fin 1);
                        pos2 = mask_s pos1 sell (Fin (- 1));
                        pos3 = map (\<lambda>v. if v = Fin 0 then NaN else v) pos2;
                        pos4 = map (\<lambda>v. if isna v then Fin 0 else v) (ffill pos3)
                    in Inr (zip (df_index df) (map (fl_clip (- 1) 1) pos4)))))"


section \<open>metrics.py\<close>

text \<open>The proleptic Gregorian calendar: day numbers of dates, and a shift by whole years.\<close>

definition is_leap :: "int \<Rightarrow> bool" where
  "is_leap y \<longleftrightarrow> y mod 4 = 0 \<and> (y mod 100 \<noteq> 0 \<or> y mod 400 = 0)"

definition days_in_month :: "int \<Rightarrow> nat \<Rightarrow> nat" where
  "days_in_month y m =
     (if m = 2 then (if is_leap y then 29 else 28)
      else if m = 4 \<or> m = 6 \<or> m = 9 \<or> m = 11 then 30 else 31)"

definition toordinal :: "timestamp \<Rightarrow> int" where
  "toordinal ts =
     (case ts of (y, m, d) \<Rightarrow>
        365 * (y - 1) + (y - 1) div 4 - (y - 1) div 100 + (y - 1) div 400
        + int (sum_list (map (days_in_month y) [1..<m])) + int d)"


text \<open>
  Of the statistics of \<^verbatim>\<open>compute_performance\<close> only the CAGR is read by the validation
  layer; the record keeps that field.
\<close>

record Performance =
  cagr :: fl

definition dropna :: "series \<Rightarrow> series" where
  "dropna s = filter (\<lambda>(t, v). \<not> isna v) s"

text \<open>
  \<^verbatim>\<open>base ** p\<close> on float64 for the exponents \<^verbatim>\<open>1 / years\<close> that occur: they are
  positive and, in float64, never whole numbers, so a negative base gives NaN.
\<close>

fun fl_pow :: "fl \<Rightarrow> real \<Rightarrow> fl" where
  "fl_pow (Fin b) p = (if b < 0 then NaN else Fin (b powr p))"
| "fl_pow PInf p = PInf"
| "fl_pow NInf p = PInf"
| "fl_pow NaN p = NaN"

definition compute_performance :: "series \<Rightarrow> series \<Rightarrow> error + Performance" where
  "compute_performance eq_curve rets =
     (let eq = dropna eq_curve in
      if length eq = 0 then Inl (ValueError ''empty equity curve'')
      else
        let total_return = fl_sub (fl_div (snd (last eq)) (snd (hd eq))) (Fin 1);
            years = max (real_of_int (toordinal (fst (last eq)) - toordinal (fst (hd eq)))
                           / (1461 / 4)) (1 / 10 ^ 9);
            cg = fl_sub (fl_pow (fl_add (Fin 1) total_return) (1 / years)) (Fin 1)
        in Inr \<lparr>cagr = cg\<rparr>)"

section \<open>deep_test.py\<close>






text \<open>
  A parameter grid: names with their candidate values, in insertion order.  The
  candidates are the Cartesian product, the last name varying fastest.
\<close>

type_synonym grid = "(string \<times> real list) list"

definition candidates :: "grid \<Rightarrow> params list" where
  "candidates g = map (zip (map fst g)) (product_lists (map snd g))"

text \<open>One candidate: strategy, backtest from an equity of 1, performance.\<close>

definition evaluate :: "dataframe \<Rightarrow> StrategyFn \<Rightarrow> CostModel \<Rightarrow> params \<Rightarrow> error + Performance" where
  "evaluate df strat cost params =
     (case strat df params of
        Inl e \<Rightarrow> Inl e
      | Inr pos \<Rightarrow>
         (case run_backtest df pos (Some cost) 1 of
            Inl e \<Rightarrow> Inl e
          | Inr res \<Rightarrow> compute_performance (equity res) (returns res)))"

fun grid_loop ::
  "dataframe \<Rightarrow> StrategyFn \<Rightarrow> CostModel \<Rightarrow> params list \<Rightarrow> (params \<times> Performance) option
     \<Rightarrow> error + (params \<times> Performance) option" where
  "grid_loop df strat cost [] best = Inr best"
| "grid_loop df strat cost (params # rest) best =
     (case evaluate df strat cost params of
        Inl e \<Rightarrow> Inl e
      | Inr perf_d \<Rightarrow>
          grid_loop df strat cost rest
            (case best of
               None \<Rightarrow> Some (params, perf_d)
             | Some b \<Rightarrow> if fl_less (cagr (snd b)) (cagr perf_d) then Some (params, perf_d)
                         else Some b))"

definition grid_search ::
  "dataframe \<Rightarrow> StrategyFn \<Rightarrow> grid \<Rightarrow> CostModel \<Rightarrow> error + (params \<times> Performance)" where
  "grid_search df strat g cost =
     (case grid_loop df strat cost (candidates g) None of
        Inl e \<Rightarrow> Inl e
      | Inr None \<Rightarrow> Inl AssertionError
      | Inr (Some best) \<Rightarrow> Inr best)"





text \<open>
  Candidate \<open>i\<close> of a list has the largest CAGR and is the first to have it: no
  candidate's CAGR is above its own, and every earlier one is strictly below.
\<close>

definition first_best ::
  "(params \<Rightarrow> error + Performance) \<Rightarrow> params list \<Rightarrow> nat \<Rightarrow> Performance \<Rightarrow> bool" where
  "first_best ev cs i p \<longleftrightarrow>
     i < length cs \<and> ev (cs ! i) = Inr p \<and>
     (\<forall>j < length cs. \<forall>q. ev (cs ! j) = Inr q \<longrightarrow>
        fl_le (cagr q) (cagr p) \<and> (j < i \<longrightarrow> fl_less (cagr q) (cagr p)))"


subsection \<open>The object store and the random generator\<close>








subsection \<open>permutation_test\<close>







subsection \<open>bootstrap_ci\<close>






section \<open>Example inputs\<close>

text \<open>A frame with a single column.\<close>

definition frame_of :: "string \<Rightarrow> series \<Rightarrow> dataframe" where
  "frame_of c s = \<lparr>col_names = [c], rows = map (\<lambda>(t, v). (t, \<lambda>k. v)) s\<rparr>"

definition ex_rets :: series where
  "ex_rets = [((2020, 1, 1), Fin 0), ((2020, 1, 2), Fin (1 / 100)), ((2020, 1, 3), Fin (- 2 / 100))]"

definition ex_df :: dataframe where
  "ex_df = frame_of ''RetSimple'' ex_rets"

definition ex_pos :: series where
  "ex_pos = [((2020, 1, 1), Fin 1), ((2020, 1, 2), Fin 1), ((2020, 1, 3), Fin 0)]"

definition ex_cost :: "CostModel option" where
  "ex_cost = Some \<lparr>commission_bps = 1, slippage_bps = 2\<rparr>"

text \<open>A flat position on the same three bars, and a return column whose first cell is NaN.\<close>

definition flat_pos :: series where
  "flat_pos = [((2020, 1, 1), Fin 0), ((2020, 1, 2), Fin 0), ((2020, 1, 3), Fin 0)]"

definition gap_df :: dataframe where
  "gap_df = frame_of ''RetSimple''
     [((2020, 1, 1), NaN), ((2020, 1, 2), Fin (1 / 100)), ((2020, 1, 3), Fin (- 2 / 100))]"

text \<open>A position series that names the first bar twice.\<close>

definition dup_pos :: series where
  "dup_pos = [((2020, 1, 1), Fin 1), ((2020, 1, 1), Fin 0)]"

text \<open>What the backtester returns on the first example.\<close>

definition ex_res :: BacktestResult where
  "ex_res =
     \<lparr>equity = [((2020, 1, 1), Fin (9997 / 10000)), ((2020, 1, 2), Fin (1009697 / 1000000)),
                ((2020, 1, 3), Fin (9892001509 / 10000000000))],
      returns = [((2020, 1, 1), Fin (- (3 / 10000))), ((2020, 1, 2), Fin (1 / 100)),
                 ((2020, 1, 3), Fin (- (203 / 10000)))],
      position = [((2020, 1, 1), Fin 1), ((2020, 1, 2), Fin 1), ((2020, 1, 3), Fin 0)],
      turnover = [((2020, 1, 1), Fin 1), ((2020, 1, 2), Fin 0), ((2020, 1, 3), Fin 1)],
      costs = [((2020, 1, 1), Fin (3 / 10000)), ((2020, 1, 2), Fin 0),
               ((2020, 1, 3), Fin (3 / 10000))]\<rparr>"

text \<open>What the backtester returns for the flat position, from a starting equity of 5.\<close>

definition flat_res :: BacktestResult where
  "flat_res =
     \<lparr>equity = [((2020, 1, 1), Fin 5), ((2020, 1, 2), Fin 5), ((2020, 1, 3), Fin 5)],
      returns = [((2020, 1, 1), Fin 0), ((2020, 1, 2), Fin 0), ((2020, 1, 3), Fin 0)],
      position = flat_pos,
      turnover = [((2020, 1, 1), Fin 0), ((2020, 1, 2), Fin 0), ((2020, 1, 3), Fin 0)],
      costs = [((2020, 1, 1), Fin 0), ((2020, 1, 2), Fin 0), ((2020, 1, 3), Fin 0)]\<rparr>"

text \<open>
  A short position held through a bar that gains 150 percent, run without costs and
  with a commission of 100 basis points.
\<close>

definition squeeze_df :: dataframe where
  "squeeze_df = frame_of ''RetSimple'' [((2020, 1, 1), Fin 0), ((2020, 1, 2), Fin (3 / 2))]"

definition short_pos :: series where
  "short_pos = [((2020, 1, 1), Fin (- 1)), ((2020, 1, 2), Fin (- 1))]"

definition free_cost :: CostModel where
  "free_cost = \<lparr>commission_bps = 0, slippage_bps = 0\<rparr>"

definition dear_cost :: CostModel where
  "dear_cost = \<lparr>commission_bps = 100, slippage_bps = 0\<rparr>"

definition free_res :: BacktestResult where
  "free_res =
     \<lparr>equity = [((2020, 1, 1), Fin 1), ((2020, 1, 2), Fin (- (1 / 2)))],
      returns = [((2020, 1, 1), Fin 0), ((2020, 1, 2), Fin (- (3 / 2)))],
      position = short_pos,
      turnover = [((2020, 1, 1), Fin 1), ((2020, 1, 2), Fin 0)],
      costs = [((2020, 1, 1), Fin 0), ((2020, 1, 2), Fin 0)]\<rparr>"

definition dear_res :: BacktestResult where
  "dear_res =
     \<lparr>equity = [((2020, 1, 1), Fin (99 / 100)), ((2020, 1, 2), Fin (- (99 / 200)))],
      returns = [((2020, 1, 1), Fin (- (1 / 100))), ((2020, 1, 2), Fin (- (3 / 2)))],
      position = short_pos,
      turnover = [((2020, 1, 1), Fin 1), ((2020, 1, 2), Fin 0)],
      costs = [((2020, 1, 1), Fin (1 / 100)), ((2020, 1, 2), Fin 0)]\<rparr>"

text \<open>The first example again, under the commission of 100 basis points.\<close>

definition ex_res_dear :: BacktestResult where
  "ex_res_dear =
     \<lparr>equity = [((2020, 1, 1), Fin (99 / 100)), ((2020, 1, 2), Fin (9999 / 10000)),
                ((2020, 1, 3), Fin (969903 / 1000000))],
      returns = [((2020, 1, 1), Fin (- (1 / 100))), ((2020, 1, 2), Fin (1 / 100)),
                 ((2020, 1, 3), Fin (- (3 / 100)))],
      position = [((2020, 1, 1), Fin 1), ((2020, 1, 2), Fin 1), ((2020, 1, 3), Fin 0)],
      turnover = [((2020, 1, 1), Fin 1), ((2020, 1, 2), Fin 0), ((2020, 1, 3), Fin 1)],
      costs = [((2020, 1, 1), Fin (1 / 100)), ((2020, 1, 2), Fin 0),
               ((2020, 1, 3), Fin (1 / 100))]\<rparr>"

text \<open>Seven daily closes, and the positions of a 1-bar against 3-bar crossover on them.\<close>

definition px_df :: dataframe where
  "px_df = \<lparr>col_names = [''Close'', ''RetSimple''],
            rows = map (\<lambda>(t, c). (t, (\<lambda>k. Fin 0)(''Close'' := Fin c)))
              [((2020, 1, 1), 100), ((2020, 1, 2), 101), ((2020, 1, 3), 103), ((2020, 1, 4), 102),
               ((2020, 1, 5), 99), ((2020, 1, 6), 95), ((2020, 1, 7), 96)]\<rparr>"

definition px_params :: params where
  "px_params = [(''fast'', 1), (''slow'', 3)]"

definition px_pos :: series where
  "px_pos = [((2020, 1, 1), Fin 0), ((2020, 1, 2), Fin 0), ((2020, 1, 3), Fin 1),
             ((2020, 1, 4), Fin 1), ((2020, 1, 5), Fin (- 1)), ((2020, 1, 6), Fin (- 1)),
             ((2020, 1, 7), Fin (- 1))]"

text \<open>A frame with both columns and no rows, and two small grids.\<close>

definition empty_df :: dataframe where
  "empty_df = \<lparr>col_names = [''Close'', ''RetSimple''], rows = []\<rparr>"

definition px_grid :: grid where
  "px_grid = [(''fast'', [1, 2]), (''slow'', [3])]"

definition void_grid :: grid where
  "void_grid = [(''fast'', [1, 2]), (''slow'', [])]"








section \<open>Facts about the series operations\<close>

lemma fst_fillna: "map fst (fillna c s) = map fst s"
  by (induction s) (auto simp: fillna_def)

lemma fst_shift1: "map fst (shift1 s) = map fst s"
  by (simp add: shift1_def map_fst_zip_take)

lemma fst_s_map: "map fst (s_map f a) = map fst a"
  by (induction a) (auto simp: s_map_def)

lemma fst_s_zip: "length a = length b \<Longrightarrow> map fst (s_zip f a b) = map fst a"
  by (induction a b rule: list_induct2) (auto simp: s_zip_def)

lemma fst_cumprod_from: "map fst (cumprod_from acc s) = map fst s"
  by (induction acc s rule: cumprod_from.induct) auto

lemma fst_cumprod: "map fst (cumprod s) = map fst s"
  by (simp add: cumprod_def fst_cumprod_from)

lemma fst_reindex: "reindex s idx = Inr p \<Longrightarrow> map fst p = idx"
  by (auto simp: reindex_def comp_def split: if_splits)

lemma fst_df_get: "df_get df c = Some s \<Longrightarrow> map fst s = df_index df"
  by (auto simp: df_get_def df_index_def comp_def case_prod_beta split: if_splits)

lemma length_of_fst: "map fst a = map fst b \<Longrightarrow> length a = length b"
  by (metis length_map)

lemma run_backtest_ok:
  assumes "df_get df ''RetSimple'' = Some ret"
      and "\<not> list_all (\<lambda>(t, v). isna v) ret"
      and "reindex posn (df_index df) = Inr pos0"
  shows "run_backtest df posn cost se =
     Inr \<lparr>equity = s_map (\<lambda>v. fl_scale v se) (cumprod (s_map (fl_add (Fin 1))
              (s_zip fl_sub (s_zip fl_mul (fillna 0 (shift1 (fillna 0 pos0))) ret)
                 (s_map (\<lambda>v. fl_scale v (cost_rate cost))
                    (s_map fl_abs (s_zip fl_sub (fillna 0 pos0) (fillna 0 (shift1 (fillna 0 pos0))))))))),
          returns = s_zip fl_sub (s_zip fl_mul (fillna 0 (shift1 (fillna 0 pos0))) ret)
                 (s_map (\<lambda>v. fl_scale v (cost_rate cost))
                    (s_map fl_abs (s_zip fl_sub (fillna 0 pos0) (fillna 0 (shift1 (fillna 0 pos0)))))),
          position = fillna 0 pos0,
          turnover = s_map fl_abs (s_zip fl_sub (fillna 0 pos0) (fillna 0 (shift1 (fillna 0 pos0)))),
          costs = s_map (\<lambda>v. fl_scale v (cost_rate cost))
                    (s_map fl_abs (s_zip fl_sub (fillna 0 pos0) (fillna 0 (shift1 (fillna 0 pos0)))))\<rparr>"
  using assms by (cases cost) (simp_all add: run_backtest_def Let_def cost_rate_def)

lemma run_backtest_cases:
  assumes "run_backtest df posn cost se = Inr r"
  obtains ret pos0 where "df_get df ''RetSimple'' = Some ret"
      and "\<not> list_all (\<lambda>(t, v). isna v) ret"
      and "reindex posn (df_index df) = Inr pos0"
proof (cases "df_get df ''RetSimple''")
  case None
  with assms show ?thesis by (simp add: run_backtest_def)
next
  case (Some ret)
  show ?thesis
  proof (cases "list_all (\<lambda>(t, v). isna v) ret")
    case True
    with Some assms show ?thesis by (simp add: run_backtest_def)
  next
    case False
    show ?thesis
    proof (cases "reindex posn (df_index df)")
      case (Inl e)
      with Some False assms show ?thesis by (simp add: run_backtest_def)
    next
      case (Inr pos0)
      with Some False that show ?thesis by blast
    qed
  qed
qed


lemma length_fillna: "length (fillna c s) = length s"
  by (simp add: fillna_def)

lemma length_shift1: "length (shift1 s) = length s"
  by (simp add: shift1_def)

lemma length_s_map: "length (s_map f a) = length a"
  by (simp add: s_map_def)

lemma length_s_zip: "length (s_zip f a b) = min (length a) (length b)"
  by (simp add: s_zip_def)

lemma snd_fillna_nth:
  "i < length s \<Longrightarrow> snd (fillna c s ! i) = (if isna (snd (s ! i)) then Fin c else snd (s ! i))"
  by (simp add: fillna_def case_prod_beta)

lemma snd_shift1_nth:
  "i < length s \<Longrightarrow> snd (shift1 s ! i) = (if i = 0 then NaN else snd (s ! (i - 1)))"
  by (cases i) (simp_all add: shift1_def)

lemma snd_s_map_nth: "i < length a \<Longrightarrow> snd (s_map f a ! i) = f (snd (a ! i))"
  by (simp add: s_map_def case_prod_beta)

lemma snd_s_zip_nth:
  "i < length a \<Longrightarrow> i < length b \<Longrightarrow> snd (s_zip f a b ! i) = f (snd (a ! i)) (snd (b ! i))"
  by (simp add: s_zip_def case_prod_beta)

lemma fillna_not_na: "i < length s \<Longrightarrow> \<not> isna (snd (fillna c s ! i))"
  by (simp add: snd_fillna_nth)


lemma run_backtest_fst:
  assumes run: "run_backtest df posn cost se = Inr r"
  shows "map fst (position r) = df_index df"
    and "map fst (turnover r) = df_index df"
    and "map fst (costs r) = df_index df"
    and "map fst (returns r) = df_index df"
    and "map fst (equity r) = df_index df"
proof -
  from run obtain ret pos0 where
    ret: "df_get df ''RetSimple'' = Some ret" and
    nn: "\<not> list_all (\<lambda>(t, v). isna v) ret" and
    re: "reindex posn (df_index df) = Inr pos0"
    by (rule run_backtest_cases)
  note r = run [unfolded run_backtest_ok [OF ret nn re], simplified, symmetric]
  have P0: "map fst pos0 = df_index df" by (rule fst_reindex [OF re])
  have R: "map fst ret = df_index df" by (rule fst_df_get [OF ret])
  have L: "length pos0 = length ret" using P0 R by (metis length_map)
  show "map fst (position r) = df_index df"
    by (subst r) (simp add: fst_fillna P0)
  show "map fst (turnover r) = df_index df"
    by (subst r) (simp add: fst_s_map fst_s_zip fst_fillna fst_shift1 length_fillna length_shift1 P0)
  show "map fst (costs r) = df_index df"
    by (subst r) (simp add: fst_s_map fst_s_zip fst_fillna fst_shift1 length_fillna length_shift1 P0)
  show "map fst (returns r) = df_index df"
    by (subst r) (simp add: fst_s_map fst_s_zip fst_fillna fst_shift1 length_fillna length_shift1
          length_s_zip length_s_map L P0)
  show "map fst (equity r) = df_index df"
    by (subst r) (simp add: fst_cumprod fst_s_map fst_s_zip fst_fillna fst_shift1 length_fillna
          length_shift1 length_s_zip length_s_map L P0)
qed

lemmas bt_defs = run_backtest_def frame_of_def ex_rets_def df_get_def df_index_def reindex_def
    fillna_def shift1_def s_zip_def s_map_def cumprod_def fl_sub_def MissingData_def Let_def

lemma run_backtest_fields:
  assumes run: "run_backtest df posn cost se = Inr r"
  obtains ret pos0 where
    "df_get df ''RetSimple'' = Some ret"
    "\<not> list_all (\<lambda>(t, v). isna v) ret"
    "reindex posn (df_index df) = Inr pos0"
    "position r = fillna 0 pos0"
    "turnover r = s_map fl_abs (s_zip fl_sub (position r) (fillna 0 (shift1 (position r))))"
    "costs r = s_map (\<lambda>v. fl_scale v (cost_rate cost)) (turnover r)"
    "returns r = s_zip fl_sub (s_zip fl_mul (fillna 0 (shift1 (position r))) ret) (costs r)"
    "equity r = s_map (\<lambda>v. fl_scale v se) (cumprod (s_map (fl_add (Fin 1)) (returns r)))"
proof -
  from run obtain ret pos0 where
    ret: "df_get df ''RetSimple'' = Some ret" and
    nn: "\<not> list_all (\<lambda>(t, v). isna v) ret" and
    re: "reindex posn (df_index df) = Inr pos0"
    by (rule run_backtest_cases)
  note r = run [unfolded run_backtest_ok [OF ret nn re], simplified, symmetric]
  have pos: "position r = fillna 0 pos0" by (simp add: r)
  have trn: "turnover r = s_map fl_abs (s_zip fl_sub (position r) (fillna 0 (shift1 (position r))))"
    unfolding pos by (simp add: r)
  have cst: "costs r = s_map (\<lambda>v. fl_scale v (cost_rate cost)) (turnover r)"
    unfolding trn pos by (simp add: r)
  have net: "returns r = s_zip fl_sub (s_zip fl_mul (fillna 0 (shift1 (position r))) ret) (costs r)"
    unfolding cst trn pos by (simp add: r)
  have eq: "equity r = s_map (\<lambda>v. fl_scale v se) (cumprod (s_map (fl_add (Fin 1)) (returns r)))"
    unfolding net cst trn pos by (simp add: r)
  from ret nn re pos trn cst net eq that show ?thesis by blast
qed

text \<open>The lagged position: flat before the first bar, the previous bar's position after.\<close>

lemma snd_pos_shift:
  assumes "position r = fillna 0 pos0" and "i < length pos0"
  shows "snd (fillna 0 (shift1 (position r)) ! i) =
           (if i = 0 then Fin 0 else snd (position r ! (i - 1)))"
proof (cases "i = 0")
  case True
  then show ?thesis using assms by (simp add: snd_fillna_nth snd_shift1_nth length_shift1 length_fillna)
next
  case False
  with assms have "\<not> isna (snd (position r ! (i - 1)))"
    by (simp add: fillna_not_na)
  with False show ?thesis
    using assms by (simp add: snd_fillna_nth snd_shift1_nth length_shift1 length_fillna)
qed

lemma run_backtest_lengths:
  assumes run: "run_backtest df posn cost se = Inr r"
  shows "length (position r) = length (df_index df)"
    and "length (turnover r) = length (df_index df)"
    and "length (costs r) = length (df_index df)"
    and "length (returns r) = length (df_index df)"
    and "length (equity r) = length (df_index df)"
  using run_backtest_fst [OF run] by (metis length_map)+

lemma ex_run: "run_backtest ex_df ex_pos ex_cost 1 = Inr ex_res"
  by (simp add: bt_defs ex_df_def ex_rets_def ex_pos_def ex_cost_def ex_res_def)

lemma ex_ret: "df_get ex_df ''RetSimple'' = Some ex_rets"
  by (simp add: ex_df_def ex_rets_def frame_of_def df_get_def)

lemma run_backtest_missing:
  "missing_returns df \<Longrightarrow> run_backtest df posn cost se = Inl MissingData"
  by (simp add: run_backtest_def missing_returns_def split: option.splits)

lemma run_backtest_present:
  assumes "\<not> missing_returns df"
  shows "reindex posn (df_index df) = Inl e \<Longrightarrow> run_backtest df posn cost se = Inl e"
    and "reindex posn (df_index df) = Inr pos0 \<Longrightarrow> \<exists>r. run_backtest df posn cost se = Inr r"
proof -
  from assms obtain ret where
    ret: "df_get df ''RetSimple'' = Some ret" and nn: "\<not> list_all (\<lambda>(t, v). isna v) ret"
    by (auto simp: missing_returns_def split: option.splits)
  show "reindex posn (df_index df) = Inl e \<Longrightarrow> run_backtest df posn cost se = Inl e"
    using ret nn by (simp add: run_backtest_def)
  show "reindex posn (df_index df) = Inr pos0 \<Longrightarrow> \<exists>r. run_backtest df posn cost se = Inr r"
    using run_backtest_ok [OF ret nn] by blast
qed

lemma reindex_cases:
  "reindex s idx =
     (if map fst s = idx \<or> distinct (map fst s)
      then Inr (if map fst s = idx then s
                else map (\<lambda>t. (t, case map_of s t of None \<Rightarrow> NaN | Some v \<Rightarrow> v)) idx)
      else Inl (ValueError ''cannot reindex on an axis with duplicate labels''))"
  by (simp add: reindex_def)

lemma reindex_values:
  assumes "reindex s idx = Inr p" and "i < length idx"
  shows "snd (p ! i) = NaN \<or> snd (p ! i) \<in> snd ` set s"
proof (cases "map fst s = idx")
  case True
  with assms have "p = s" "i < length s" by (auto simp: reindex_def)
  then show ?thesis by simp
next
  case False
  with assms have p: "p = map (\<lambda>t. (t, case map_of s t of None \<Rightarrow> NaN | Some v \<Rightarrow> v)) idx"
    by (auto simp: reindex_def split: if_splits)
  show ?thesis
  proof (cases "map_of s (idx ! i)")
    case None
    with assms p show ?thesis by simp
  next
    case (Some v)
    then have "(idx ! i, v) \<in> set s" by (rule map_of_SomeD)
    then have "v \<in> snd ` set s" by force
    with Some assms p show ?thesis by simp
  qed
qed

lemma cumprod_from_ones:
  "\<forall>x \<in> set s. snd x = Fin 1 \<Longrightarrow> cumprod_from (Fin 1) s = s"
  by (induction s) auto

lemma series_all_nth: "(\<forall>x \<in> set s. P (snd x)) \<longleftrightarrow> (\<forall>i < length s. P (snd (s ! i)))"
  by (metis in_set_conv_nth)

lemma fl_cases_no_inf:
  assumes "v \<noteq> PInf \<and> v \<noteq> NInf"
  obtains "v = NaN" | a where "v = Fin a"
  using assms by (cases v) auto

lemma reindex_no_inf:
  assumes re: "reindex s idx = Inr p" and i: "i < length idx"
      and fin: "\<forall>x \<in> set s. snd x \<noteq> PInf \<and> snd x \<noteq> NInf"
  shows "snd (p ! i) \<noteq> PInf \<and> snd (p ! i) \<noteq> NInf"
  using reindex_values [OF re i] fin by auto

text \<open>The net return of a bar, from the reindexed position and the return column.\<close>

lemma run_backtest_net_nth:
  assumes run: "run_backtest df posn cost se = Inr r"
      and re: "reindex posn (df_index df) = Inr pos0"
      and ret: "df_get df ''RetSimple'' = Some ret"
      and j: "j < length (df_index df)"
  shows "snd (returns r ! j) =
           fl_sub (fl_mul (snd (fillna 0 (shift1 (fillna 0 pos0)) ! j)) (snd (ret ! j)))
             (fl_scale (fl_abs (fl_sub (snd (fillna 0 pos0 ! j))
                                       (snd (fillna 0 (shift1 (fillna 0 pos0)) ! j))))
                (cost_rate cost))"
proof -
  from run obtain ret' pos0' where
    ret': "df_get df ''RetSimple'' = Some ret'" and
    re': "reindex posn (df_index df) = Inr pos0'" and
    pos: "position r = fillna 0 pos0'" and
    trn: "turnover r = s_map fl_abs (s_zip fl_sub (position r) (fillna 0 (shift1 (position r))))" and
    cst: "costs r = s_map (\<lambda>v. fl_scale v (cost_rate cost)) (turnover r)" and
    net: "returns r = s_zip fl_sub (s_zip fl_mul (fillna 0 (shift1 (position r))) ret') (costs r)"
    by (rule run_backtest_fields)
  from ret ret' re re' have [simp]: "ret' = ret" "pos0' = pos0" by simp_all
  note len = run_backtest_lengths [OF run]
  have L0: "length pos0 = length (df_index df)" using fst_reindex [OF re] by (metis length_map)
  have Lr: "length ret = length (df_index df)" using fst_df_get [OF ret] by (metis length_map)
  have T: "snd (turnover r ! j) = fl_abs (fl_sub (snd (fillna 0 pos0 ! j))
                                       (snd (fillna 0 (shift1 (fillna 0 pos0)) ! j)))"
    using j L0
    by (simp add: trn pos snd_s_map_nth snd_s_zip_nth length_s_zip length_fillna length_shift1)
  have C: "snd (costs r ! j) = fl_scale (snd (turnover r ! j)) (cost_rate cost)"
    using j len by (simp add: cst snd_s_map_nth)
  show ?thesis
    using j len L0 Lr
    by (subst net)
       (simp add: snd_s_zip_nth length_s_zip length_fillna length_shift1 C T pos)
qed

text \<open>With no infinite cell, lagged position and turnover of a bar are numbers.\<close>

lemma lag_turn_fin:
  assumes re: "reindex posn idx = Inr pos0"
      and fin: "\<forall>x \<in> set posn. snd x \<noteq> PInf \<and> snd x \<noteq> NInf"
      and j: "j < length idx"
  obtains p s where "snd (fillna 0 pos0 ! j) = Fin p"
    and "snd (fillna 0 (shift1 (fillna 0 pos0)) ! j) = Fin s"
proof -
  have L0: "length pos0 = length idx" using fst_reindex [OF re] by (metis length_map)
  have F: "\<exists>p. snd (fillna 0 pos0 ! k) = Fin p" if "k < length idx" for k
  proof -
    from reindex_no_inf [OF re that fin] show ?thesis
      using that L0 by (cases "snd (pos0 ! k)") (auto simp: snd_fillna_nth)
  qed
  from F [OF j] obtain p where p: "snd (fillna 0 pos0 ! j) = Fin p" by blast
  have "\<exists>s. snd (fillna 0 (shift1 (fillna 0 pos0)) ! j) = Fin s"
  proof (cases j)
    case 0
    then show ?thesis using j L0 by (simp add: snd_fillna_nth snd_shift1_nth length_shift1 length_fillna)
  next
    case (Suc k)
    with j have "k < length idx" by simp
    from F [OF this] obtain q where "snd (fillna 0 pos0 ! k) = Fin q" by blast
    with Suc show ?thesis
      using j L0 by (simp add: snd_fillna_nth snd_shift1_nth length_shift1 length_fillna)
  qed
  with p that show ?thesis by blast
qed



lemma cell_le_iff:
  "cell_le x y \<longleftrightarrow> (x = NaN \<and> y = NaN) \<or> (\<exists>b a. x = Fin b \<and> y = Fin a \<and> 0 \<le> b \<and> b \<le> a)"
  by (cases x; cases y) auto

lemma isna_iff: "isna v \<longleftrightarrow> v = NaN"
  by (cases v) auto

lemma cumprod_from_mono:
  assumes "length sa = length sb"
      and "\<forall>j \<le> i. cell_le (snd (sb ! j)) (snd (sa ! j))"
      and "i < length sa" and "0 \<le> cb" and "cb \<le> ca"
  shows "cell_le (snd (cumprod_from (Fin cb) sb ! i)) (snd (cumprod_from (Fin ca) sa ! i)) \<and>
         (snd (cumprod_from (Fin ca) sa ! i) = NaN \<longrightarrow> snd (sa ! i) = NaN)"
  using assms
proof (induction sa sb arbitrary: i ca cb rule: list_induct2)
  case Nil
  then show ?case by simp
next
  case (Cons x xs y ys)
  obtain t v where x: "x = (t, v)" by (cases x)
  obtain u w where y: "y = (u, w)" by (cases y)
  from Cons.prems(1) have h0: "cell_le w v" using x y by (auto dest: spec [of _ 0])
  have tl: "\<forall>j \<le> k. cell_le (snd (ys ! j)) (snd (xs ! j))" if "i = Suc k" for k
  proof (intro allI impI)
    fix j assume "j \<le> k"
    with that Cons.prems(1) have "cell_le (snd ((y # ys) ! Suc j)) (snd ((x # xs) ! Suc j))"
      by (auto dest: spec [of _ "Suc j"])
    then show "cell_le (snd (ys ! j)) (snd (xs ! j))" by simp
  qed
  show ?case
  proof (cases "v = NaN")
    case True
    with h0 have w: "w = NaN" by (auto simp: cell_le_iff)
    show ?thesis
    proof (cases i)
      case 0
      then show ?thesis using True w x y by (simp add: cell_le_iff)
    next
      case (Suc k)
      with Cons.prems have "k < length xs" by simp
      from Cons.IH [OF tl [OF Suc] this Cons.prems(3,4)]
      show ?thesis using True w x y Suc by simp
    qed
  next
    case False
    with h0 obtain a b where ab: "v = Fin a" "w = Fin b" "0 \<le> b" "b \<le> a"
      by (auto simp: cell_le_iff)
    have m: "0 \<le> cb * b" "cb * b \<le> ca * a"
      using ab Cons.prems by (simp_all add: mult_mono)
    show ?thesis
    proof (cases i)
      case 0
      then show ?thesis using ab m x y by (simp add: cell_le_iff)
    next
      case (Suc k)
      with Cons.prems have "k < length xs" by simp
      from Cons.IH [OF tl [OF Suc] this m]
      show ?thesis using ab x y Suc by simp
    qed
  qed
qed

lemma fl_le_Fin: "fl_le (Fin b) (Fin a) \<longleftrightarrow> b \<le> a"
  by auto

lemma ma_cross_InrD:
  assumes "ma_cross df params = Inr pos"
  obtains close ma_f ma_s where
    "df_get df ''Close'' = Some close"
    "rolling_mean (py_int (params_get params ''fast'' 20)) (map snd close) = Inr ma_f"
    "rolling_mean (py_int (params_get params ''slow'' 100)) (map snd close) = Inr ma_s"
    "pos = zip (df_index df) (map (fl_clip (- 1) 1)
       (map (\<lambda>v. if isna v then Fin 0 else v) (ffill (map (\<lambda>v. if v = Fin 0 then NaN else v)
         (mask_s (mask_s (map (\<lambda>_. Fin 0) close)
            (map (\<lambda>x. fl_less (Fin (params_get params ''neutral_zone'' 0 / 10000)) x)
               (map (\<lambda>(f, s). fl_div (fl_sub f s) s) (zip ma_f ma_s))) (Fin 1))
            (map (\<lambda>x. fl_less x (Fin (- (params_get params ''neutral_zone'' 0 / 10000))))
               (map (\<lambda>(f, s). fl_div (fl_sub f s) s) (zip ma_f ma_s))) (Fin (- 1)))))))"
proof (cases "df_get df ''Close''")
  case None
  with assms show ?thesis by (simp add: ma_cross_def)
next
  case (Some close)
  show ?thesis
  proof (cases "rolling_mean (py_int (params_get params ''fast'' 20)) (map snd close)")
    case (Inl e)
    with Some assms show ?thesis by (simp add: ma_cross_def)
  next
    case f: (Inr ma_f)
    show ?thesis
    proof (cases "rolling_mean (py_int (params_get params ''slow'' 100)) (map snd close)")
      case (Inl e)
      with Some f assms show ?thesis by (simp add: ma_cross_def)
    next
      case s: (Inr ma_s)
      from assms Some f s have "pos = zip (df_index df) (map (fl_clip (- 1) 1)
       (map (\<lambda>v. if isna v then Fin 0 else v) (ffill (map (\<lambda>v. if v = Fin 0 then NaN else v)
         (mask_s (mask_s (map (\<lambda>_. Fin 0) close)
            (map (\<lambda>x. fl_less (Fin (params_get params ''neutral_zone'' 0 / 10000)) x)
               (map (\<lambda>(f, s). fl_div (fl_sub f s) s) (zip ma_f ma_s))) (Fin 1))
            (map (\<lambda>x. fl_less x (Fin (- (params_get params ''neutral_zone'' 0 / 10000))))
               (map (\<lambda>(f, s). fl_div (fl_sub f s) s) (zip ma_f ma_s))) (Fin (- 1)))))))"
        by (simp add: ma_cross_def Let_def)
      with Some f s that show ?thesis by blast
    qed
  qed
qed

lemma length_rolling_mean: "rolling_mean w xs = Inr ys \<Longrightarrow> length ys = length xs"
  by (auto simp: rolling_mean_def split: if_splits)

lemma rolling_mean_warmup:
  assumes "rolling_mean w xs = Inr ys" and "i < length xs" and "int i + 1 < w"
  shows "ys ! i = NaN"
proof -
  from assms have "ys = map (window_mean (nat w) xs) [0..<length xs]" and "0 \<le> w"
    by (auto simp: rolling_mean_def split: if_splits)
  with assms show ?thesis by (simp add: window_mean_def)
qed

lemma length_mask: "length (mask_s xs c v) = min (length xs) (length c)"
  by (simp add: mask_s_def)

lemma mask_nth:
  "i < length xs \<Longrightarrow> i < length c \<Longrightarrow> mask_s xs c v ! i = (if c ! i then v else xs ! i)"
  by (simp add: mask_s_def)

lemma set_mask: "set (mask_s xs c v) \<subseteq> insert v (set xs)"
proof
  fix y assume "y \<in> set (mask_s xs c v)"
  then obtain x b where "(x, b) \<in> set (zip xs c)" and y: "y = (if b then v else x)"
    by (auto simp: mask_s_def)
  then have "x \<in> set xs" by (auto dest: set_zip_leftD)
  with y show "y \<in> insert v (set xs)" by simp
qed

lemma length_ffill_from: "length (ffill_from p xs) = length xs"
  by (induction p xs rule: ffill_from.induct) auto

lemma set_ffill_from: "set (ffill_from p xs) \<subseteq> insert p (set xs)"
  by (induction p xs rule: ffill_from.induct) auto

lemma ffill_from_prefix:
  "i < length xs \<Longrightarrow> \<forall>j \<le> i. xs ! j = NaN \<Longrightarrow> ffill_from NaN xs ! i = NaN"
proof (induction xs arbitrary: i)
  case Nil
  then show ?case by simp
next
  case (Cons x xs)
  from Cons.prems(2) have x: "x = NaN" by (auto dest: spec [of _ 0])
  show ?case
  proof (cases i)
    case 0
    with x show ?thesis by simp
  next
    case (Suc k)
    have "\<forall>j \<le> k. xs ! j = NaN"
    proof (intro allI impI)
      fix j assume "j \<le> k"
      with Suc Cons.prems(2) have "(x # xs) ! Suc j = NaN" by (auto dest: spec [of _ "Suc j"])
      then show "xs ! j = NaN" by simp
    qed
    with Cons.IH [of k] Cons.prems(1) Suc x show ?thesis by simp
  qed
qed

lemma fl_div_NaN: "fl_div x NaN = NaN"
  by (cases x) auto

lemma fl_less_NaN: "\<not> fl_less x NaN"
  by (cases x) auto

lemmas ma_defs = ma_cross_def params_get_def py_int_def df_get_def rolling_mean_def
  window_mean_def mask_s_def ffill_def fl_sub_def Let_def df_index_def

lemma fl_not_less_le: "\<not> fl_less a b \<Longrightarrow> a \<noteq> NaN \<Longrightarrow> b \<noteq> NaN \<Longrightarrow> fl_le b a"
  by (cases a; cases b) auto

lemma fl_less_le: "fl_less a b \<Longrightarrow> fl_le a b"
  by (cases a; cases b) auto

lemma fl_le_less_trans: "fl_le a b \<Longrightarrow> fl_less b c \<Longrightarrow> fl_less a c"
  by (cases a; cases b; cases c) auto

lemma fl_le_trans: "fl_le a b \<Longrightarrow> fl_le b c \<Longrightarrow> fl_le a c"
  by (cases a; cases b; cases c) auto

lemma fl_le_refl: "a \<noteq> NaN \<Longrightarrow> fl_le a a"
  by (cases a) auto

lemma grid_loop_append:
  "grid_loop df strat cost (xs @ ys) best =
     (case grid_loop df strat cost xs best of
        Inl e \<Rightarrow> Inl e
      | Inr b \<Rightarrow> grid_loop df strat cost ys b)"
  by (induction xs arbitrary: best) (auto split: sum.splits)

lemma grid_loop_first_best:
  assumes "cs \<noteq> []"
      and "\<forall>c \<in> set cs. \<exists>p. evaluate df strat cost c = Inr p \<and> cagr p \<noteq> NaN"
  shows "\<exists>i p. grid_loop df strat cost cs None = Inr (Some (cs ! i, p)) \<and>
               first_best (evaluate df strat cost) cs i p"
  using assms
proof (induction cs rule: rev_induct)
  case Nil
  then show ?case by simp
next
  case (snoc c cs)
  from snoc.prems(2) obtain pc where
    pc: "evaluate df strat cost c = Inr pc" and pcn: "cagr pc \<noteq> NaN" by auto
  show ?case
  proof (cases "cs = []")
    case True
    have "first_best (evaluate df strat cost) [c] 0 pc"
      using pc pcn by (auto simp: first_best_def fl_le_refl)
    with True pc show ?thesis by (intro exI [of _ 0] exI [of _ pc]) simp
  next
    case False
    with snoc obtain i p where
      run: "grid_loop df strat cost cs None = Inr (Some (cs ! i, p))" and
      fb: "first_best (evaluate df strat cost) cs i p" by auto
    from fb have i: "i < length cs" and pi: "evaluate df strat cost (cs ! i) = Inr p"
      by (auto simp: first_best_def)
    from snoc.prems(2) i pi have pn: "cagr p \<noteq> NaN" by (metis Inr_inject in_set_conv_nth
          in_set_conv_decomp append_Cons append_assoc nth_mem set_append UnCI)
    show ?thesis
    proof (cases "fl_less (cagr p) (cagr pc)")
      case True
      have "first_best (evaluate df strat cost) (cs @ [c]) (length cs) pc"
        unfolding first_best_def
      proof (intro conjI allI impI)
        show "length cs < length (cs @ [c])" by simp
        show "evaluate df strat cost ((cs @ [c]) ! length cs) = Inr pc" using pc by simp
      next
        fix j q assume j: "j < length (cs @ [c])"
          and q: "evaluate df strat cost ((cs @ [c]) ! j) = Inr q"
        show "fl_le (cagr q) (cagr pc)"
        proof (cases "j < length cs")
          case True
          with q fb have "fl_le (cagr q) (cagr p)" by (auto simp: first_best_def nth_append)
          with \<open>fl_less (cagr p) (cagr pc)\<close> show ?thesis
            by (blast intro: fl_less_le fl_le_less_trans)
        next
          case False
          with j q pc pcn show ?thesis by (auto simp: nth_append fl_le_refl)
        qed
      next
        fix j q assume j: "j < length (cs @ [c])"
          and q: "evaluate df strat cost ((cs @ [c]) ! j) = Inr q" and "j < length cs"
        with fb have "fl_le (cagr q) (cagr p)" by (auto simp: first_best_def nth_append)
        then show "fl_less (cagr q) (cagr pc)"
          using \<open>fl_less (cagr p) (cagr pc)\<close> by (rule fl_le_less_trans)
      qed
      moreover have "grid_loop df strat cost (cs @ [c]) None = Inr (Some (c, pc))"
        using run pc True by (simp add: grid_loop_append)
      ultimately show ?thesis
        by (intro exI [of _ "length cs"] exI [of _ pc]) simp
    next
      case nl: False
      from nl pn pcn have le: "fl_le (cagr pc) (cagr p)" by (rule fl_not_less_le)
      have "first_best (evaluate df strat cost) (cs @ [c]) i p"
        unfolding first_best_def
      proof (intro conjI allI impI)
        show "i < length (cs @ [c])" using i by simp
        show "evaluate df strat cost ((cs @ [c]) ! i) = Inr p" using i pi by (simp add: nth_append)
      next
        fix j q assume j: "j < length (cs @ [c])"
          and q: "evaluate df strat cost ((cs @ [c]) ! j) = Inr q"
        show "fl_le (cagr q) (cagr p)"
        proof (cases "j < length cs")
          case True
          with q fb show ?thesis by (auto simp: first_best_def nth_append)
        next
          case False
          with j q pc le show ?thesis by (auto simp: nth_append)
        qed
      next
        fix j q assume j: "j < length (cs @ [c])"
          and q: "evaluate df strat cost ((cs @ [c]) ! j) = Inr q" and ji: "j < i"
        from ji i have jl: "j < length cs" by simp
        with q have "evaluate df strat cost (cs ! j) = Inr q" by (simp add: nth_append)
        with fb jl ji show "fl_less (cagr q) (cagr p)" unfolding first_best_def by blast
      qed
      moreover have "grid_loop df strat cost (cs @ [c]) None = Inr (Some (cs ! i, p))"
        using run pc nl by (simp add: grid_loop_append)
      ultimately show ?thesis
        using i by (intro exI [of _ i] exI [of _ p]) (simp add: nth_append)
    qed
  qed
qed

lemma grid_loop_error:
  assumes "\<forall>c \<in> set xs. \<exists>p. evaluate df strat cost c = Inr p"
      and "evaluate df strat cost c = Inl e"
  shows "grid_loop df strat cost (xs @ c # ys) best = Inl e"
  using assms by (induction xs arbitrary: best) auto

lemma product_lists_empty: "product_lists xss = [] \<longleftrightarrow> [] \<in> set xss"
  by (induction xss) auto

lemma candidates_empty: "candidates g = [] \<longleftrightarrow> [] \<in> snd ` set g"
  by (simp add: candidates_def product_lists_empty)

lemmas perf_defs = evaluate_def compute_performance_def dropna_def toordinal_def days_in_month_def
  is_leap_def

lemma px_cands: "candidates px_grid = [[(''fast'', 1), (''slow'', 3)], [(''fast'', 2), (''slow'', 3)]]"
  by (simp add: candidates_def px_grid_def)

lemma px_eval1: "evaluate px_df ma_cross free_cost [(''fast'', 1), (''slow'', 3)] = Inr \<lparr>cagr = Fin 0\<rparr>"
  by (simp add: perf_defs ma_defs bt_defs px_df_def free_cost_def upt_rec)

lemma px_eval2: "evaluate px_df ma_cross free_cost [(''fast'', 2), (''slow'', 3)] = Inr \<lparr>cagr = Fin 0\<rparr>"
  by (simp add: perf_defs ma_defs bt_defs px_df_def free_cost_def upt_rec)

lemma px_evals:
  "\<forall>c \<in> set (candidates px_grid). \<exists>p. evaluate px_df ma_cross free_cost c = Inr p \<and> cagr p \<noteq> NaN"
  by (simp add: px_cands px_eval1 px_eval2)



































section \<open>Claims about the backtester\<close>



text \<open>
  C2 as stated fails: a flat position does not give a zero net return on a bar whose
  simple return is NaN (0 times NaN is NaN), and the equity is NaN there too.
\<close>

theorem run_backtest_flat_counterexample:
  "run_backtest gap_df flat_pos None 1 =
     Inr \<lparr>equity = [((2020, 1, 1), NaN), ((2020, 1, 2), Fin 1), ((2020, 1, 3), Fin 1)],
          returns = [((2020, 1, 1), NaN), ((2020, 1, 2), Fin 0), ((2020, 1, 3), Fin 0)],
          position = flat_pos,
          turnover = [((2020, 1, 1), Fin 0), ((2020, 1, 2), Fin 0), ((2020, 1, 3), Fin 0)],
          costs = [((2020, 1, 1), Fin 0), ((2020, 1, 2), Fin 0), ((2020, 1, 3), Fin 0)]\<rparr>"
  by (simp add: bt_defs gap_df_def flat_pos_def)

text \<open>
  C2, amended.  If every value of the position series is 0 and every cell of the
  simple-return column is a finite number, then whenever \<^verbatim>\<open>run_backtest\<close> returns,
  the net return is 0 at every bar and the equity is \<open>starting_equity\<close> at every bar.
\<close>

theorem run_backtest_flat:
  assumes run: "run_backtest df posn cost starting_equity = Inr r"
      and flat: "\<forall>x \<in> set posn. snd x = Fin 0"
      and ret: "df_get df ''RetSimple'' = Some ret"
      and fin: "\<forall>x \<in> set ret. is_fin (snd x)"
      and i: "i < length (df_index df)"
  shows "snd (returns r ! i) = Fin 0 \<and> snd (equity r ! i) = Fin starting_equity"
proof -
  from run obtain ret' pos0 where
    ret': "df_get df ''RetSimple'' = Some ret'" and
    re: "reindex posn (df_index df) = Inr pos0" and
    pos: "position r = fillna 0 pos0" and
    trn: "turnover r = s_map fl_abs (s_zip fl_sub (position r) (fillna 0 (shift1 (position r))))" and
    cst: "costs r = s_map (\<lambda>v. fl_scale v (cost_rate cost)) (turnover r)" and
    net: "returns r = s_zip fl_sub (s_zip fl_mul (fillna 0 (shift1 (position r))) ret') (costs r)" and
    eq: "equity r = s_map (\<lambda>v. fl_scale v starting_equity)
                      (cumprod (s_map (fl_add (Fin 1)) (returns r)))"
    by (rule run_backtest_fields)
  from ret ret' have [simp]: "ret' = ret" by simp
  let ?n = "length (df_index df)"
  note len = run_backtest_lengths [OF run]
  have L0: "length pos0 = ?n" using fst_reindex [OF re] by (metis length_map)
  have Lr: "length ret = ?n" using fst_df_get [OF ret] by (metis length_map)
  have P: "snd (position r ! j) = Fin 0" if "j < ?n" for j
  proof -
    from reindex_values [OF re that] flat have "snd (pos0 ! j) = NaN \<or> snd (pos0 ! j) = Fin 0"
      by auto
    then show ?thesis using that L0 by (auto simp: pos snd_fillna_nth)
  qed
  have S: "snd (fillna 0 (shift1 (position r)) ! j) = Fin 0" if "j < ?n" for j
    using snd_pos_shift [OF pos, of j] that L0 P [of "j - 1"] by auto
  have T: "snd (turnover r ! j) = Fin 0" if "j < ?n" for j
    using that len P [OF that] S [OF that]
    by (simp add: trn snd_s_map_nth snd_s_zip_nth length_s_zip length_fillna length_shift1 fl_sub_def)
  have C: "snd (costs r ! j) = Fin 0" if "j < ?n" for j
    using that len T [OF that] by (simp add: cst snd_s_map_nth)
  have N: "snd (returns r ! j) = Fin 0" if "j < ?n" for j
  proof -
    from fin that Lr have "is_fin (snd (ret ! j))" by (simp add: series_all_nth [where P = is_fin])
    then obtain a where a: "snd (ret ! j) = Fin a" by (cases "snd (ret ! j)") auto
    show ?thesis
      using that len Lr S [OF that] C [OF that] a
      by (subst net)
         (simp add: snd_s_zip_nth length_s_zip length_fillna length_shift1 fl_sub_def)
  qed
  have "\<forall>x \<in> set (s_map (fl_add (Fin 1)) (returns r)). snd x = Fin 1"
    using N len
    by (simp add: series_all_nth [where P = "\<lambda>v. v = Fin 1"] length_s_map snd_s_map_nth)
  then have cp: "cumprod (s_map (fl_add (Fin 1)) (returns r)) = s_map (fl_add (Fin 1)) (returns r)"
    unfolding cumprod_def by (rule cumprod_from_ones)
  have "snd (equity r ! i) = Fin starting_equity"
    using i len N [OF i] by (simp add: eq cp snd_s_map_nth length_s_map)
  with N [OF i] show ?thesis by simp
qed

theorem run_backtest_flat_witness:
  "run_backtest ex_df flat_pos ex_cost 5 = Inr flat_res \<and>
   snd (returns flat_res ! 2) = Fin 0 \<and> snd (equity flat_res ! 2) = Fin 5"
proof -
  have run: "run_backtest ex_df flat_pos ex_cost 5 = Inr flat_res"
    by (simp add: bt_defs ex_df_def ex_rets_def flat_pos_def ex_cost_def flat_res_def)
  have flat: "\<forall>x \<in> set flat_pos. snd x = Fin 0" by (simp add: flat_pos_def)
  have fin: "\<forall>x \<in> set ex_rets. is_fin (snd x)" by (simp add: ex_rets_def)
  have i: "2 < length (df_index ex_df)" by (simp add: ex_df_def ex_rets_def frame_of_def df_index_def)
  from run_backtest_flat [OF run flat ex_ret fin i] run show ?thesis by simp
qed

text \<open>
  C3 as stated fails for the equity: a short position held through a bar that gains
  150 percent turns the equity negative, and from there the run that paid the higher
  cost on entry has the higher (less negative) equity.
\<close>

theorem run_backtest_cost_monotone_counterexample:
  "run_backtest squeeze_df short_pos (Some free_cost) 1 = Inr free_res \<and>
   run_backtest squeeze_df short_pos (Some dear_cost) 1 = Inr dear_res \<and>
   commission_bps free_cost + slippage_bps free_cost
     \<le> commission_bps dear_cost + slippage_bps dear_cost \<and>
   snd (equity free_res ! 1) = Fin (- (1 / 2)) \<and>
   snd (equity dear_res ! 1) = Fin (- (99 / 200)) \<and>
   \<not> fl_le (snd (equity dear_res ! 1)) (snd (equity free_res ! 1))"
  by (simp add: bt_defs squeeze_df_def short_pos_def free_cost_def dear_cost_def
        free_res_def dear_res_def)

text \<open>
  C3, amended.  Fix the frame, the position series and the starting equity, with no
  infinite cell in the return column or the position series, and take two cost models,
  the second with the larger \<open>commission_bps + slippage_bps\<close>.  At every bar whose simple
  return is defined, the net return under the second is at most the net return under
  the first; and if the starting equity is not negative and, under the second cost
  model, no bar up to this one loses more than 100 percent, the equity under the second
  is at most the equity under the first.
\<close>

theorem run_backtest_cost_monotone:
  assumes runA: "run_backtest df posn (Some ca) starting_equity = Inr ra"
      and runB: "run_backtest df posn (Some cb) starting_equity = Inr rb"
      and le: "commission_bps ca + slippage_bps ca \<le> commission_bps cb + slippage_bps cb"
      and finp: "\<forall>x \<in> set posn. snd x \<noteq> PInf \<and> snd x \<noteq> NInf"
      and ret: "df_get df ''RetSimple'' = Some ret"
      and finr: "\<forall>x \<in> set ret. snd x \<noteq> PInf \<and> snd x \<noteq> NInf"
      and i: "i < length ret"
      and def: "\<not> isna (snd (ret ! i))"
  shows "fl_le (snd (returns rb ! i)) (snd (returns ra ! i)) \<and>
         (0 \<le> starting_equity \<and>
          (\<forall>j \<le> i. isna (snd (ret ! j)) \<or> fl_le (Fin (- 1)) (snd (returns rb ! j)))
          \<longrightarrow> fl_le (snd (equity rb ! i)) (snd (equity ra ! i)))"
proof -
  let ?n = "length (df_index df)"
  let ?ka = "cost_rate (Some ca)" and ?kb = "cost_rate (Some cb)"
  from le have k: "?ka \<le> ?kb" by (simp add: cost_rate_def divide_right_mono)
  from runA obtain pos0 where re: "reindex posn (df_index df) = Inr pos0"
    by (rule run_backtest_fields)
  have Lr: "length ret = ?n" using fst_df_get [OF ret] by (metis length_map)
  note lenA = run_backtest_lengths [OF runA] and lenB = run_backtest_lengths [OF runB]
  text \<open>Every bar: both net returns are NaN, or both are numbers, the dearer one smaller.\<close>
  have N: "(snd (ret ! j) = NaN \<and> snd (returns rb ! j) = NaN \<and> snd (returns ra ! j) = NaN) \<or>
           (\<exists>b a. snd (ret ! j) \<noteq> NaN \<and> snd (returns rb ! j) = Fin b \<and>
                  snd (returns ra ! j) = Fin a \<and> b \<le> a)"
    if j: "j < ?n" for j
  proof -
    from lag_turn_fin [OF re finp j] obtain p s where
      p: "snd (fillna 0 pos0 ! j) = Fin p" and
      s: "snd (fillna 0 (shift1 (fillna 0 pos0)) ! j) = Fin s" by blast
    have u: "\<bar>p - s\<bar> * ?ka \<le> \<bar>p - s\<bar> * ?kb" using k by (simp add: mult_left_mono)
    from finr j Lr have "snd (ret ! j) \<noteq> PInf \<and> snd (ret ! j) \<noteq> NInf"
      by (simp add: series_all_nth [where P = "\<lambda>v. v \<noteq> PInf \<and> v \<noteq> NInf"])
    then show ?thesis
    proof (cases rule: fl_cases_no_inf)
      case 1
      then show ?thesis
        by (simp add: run_backtest_net_nth [OF runA re ret j] run_backtest_net_nth [OF runB re ret j]
              p s fl_sub_def)
    next
      case (2 x)
      then show ?thesis using u
        by (simp add: run_backtest_net_nth [OF runA re ret j] run_backtest_net_nth [OF runB re ret j]
              p s fl_sub_def)
    qed
  qed
  from i Lr have i': "i < ?n" by simp
  from N [OF i'] def have net: "fl_le (snd (returns rb ! i)) (snd (returns ra ! i))"
    by (auto simp: isna_iff fl_le_Fin simp del: fl_le.simps)
  have eq: "fl_le (snd (equity rb ! i)) (snd (equity ra ! i))"
    if se: "0 \<le> starting_equity"
      and floor: "\<forall>j \<le> i. isna (snd (ret ! j)) \<or> fl_le (Fin (- 1)) (snd (returns rb ! j))"
  proof -
    let ?ga = "s_map (fl_add (Fin 1)) (returns ra)" and ?gb = "s_map (fl_add (Fin 1)) (returns rb)"
    have G: "cell_le (snd (?gb ! j)) (snd (?ga ! j))" if "j \<le> i" for j
    proof -
      from that i' have j: "j < ?n" by simp
      from floor that have f: "isna (snd (ret ! j)) \<or> fl_le (Fin (- 1)) (snd (returns rb ! j))"
        by blast
      from N [OF j] f show ?thesis
        using j lenA lenB by (auto simp: cell_le_iff snd_s_map_nth isna_iff)
    qed
    have "cell_le (snd (cumprod_from (Fin 1) ?gb ! i)) (snd (cumprod_from (Fin 1) ?ga ! i)) \<and>
         (snd (cumprod_from (Fin 1) ?ga ! i) = NaN \<longrightarrow> snd (?ga ! i) = NaN)"
      using G i' lenA lenB by (intro cumprod_from_mono) (simp_all add: length_s_map)
    moreover have "snd (?ga ! i) \<noteq> NaN"
      using N [OF i'] def i' lenA by (auto simp: snd_s_map_nth isna_iff)
    ultimately obtain b a where
      "snd (cumprod_from (Fin 1) ?gb ! i) = Fin b" "snd (cumprod_from (Fin 1) ?ga ! i) = Fin a"
      "b \<le> a"
      by (auto simp: cell_le_iff)
    moreover from runA obtain "equity ra = s_map (\<lambda>v. fl_scale v starting_equity) (cumprod ?ga)"
      by (rule run_backtest_fields)
    moreover from runB obtain "equity rb = s_map (\<lambda>v. fl_scale v starting_equity) (cumprod ?gb)"
      by (rule run_backtest_fields)
    moreover have "b * starting_equity \<le> a * starting_equity"
      if "b \<le> a" for a b :: real
      using that se by (rule mult_right_mono)
    ultimately show ?thesis
      using i' lenA lenB
      by (simp add: snd_s_map_nth cumprod_def length_s_map length_of_fst [OF fst_cumprod_from]
            fl_le_Fin del: fl_le.simps)
  qed
  from net eq show ?thesis by blast
qed

theorem run_backtest_cost_monotone_witness:
  "run_backtest ex_df ex_pos (Some \<lparr>commission_bps = 1, slippage_bps = 2\<rparr>) 1 = Inr ex_res \<and>
   run_backtest ex_df ex_pos (Some dear_cost) 1 = Inr ex_res_dear \<and>
   fl_le (snd (returns ex_res_dear ! 2)) (snd (returns ex_res ! 2)) \<and>
   fl_le (snd (equity ex_res_dear ! 2)) (snd (equity ex_res ! 2))"
proof -
  have runA: "run_backtest ex_df ex_pos (Some \<lparr>commission_bps = 1, slippage_bps = 2\<rparr>) 1 = Inr ex_res"
    using ex_run by (simp add: ex_cost_def)
  have runB: "run_backtest ex_df ex_pos (Some dear_cost) 1 = Inr ex_res_dear"
    by (simp add: bt_defs ex_df_def ex_rets_def ex_pos_def dear_cost_def ex_res_dear_def)
  have le: "commission_bps \<lparr>commission_bps = 1, slippage_bps = 2\<rparr>
              + slippage_bps \<lparr>commission_bps = 1, slippage_bps = 2\<rparr>
            \<le> commission_bps dear_cost + slippage_bps dear_cost"
    by (simp add: dear_cost_def)
  have finp: "\<forall>x \<in> set ex_pos. snd x \<noteq> PInf \<and> snd x \<noteq> NInf" by (simp add: ex_pos_def)
  have finr: "\<forall>x \<in> set ex_rets. snd x \<noteq> PInf \<and> snd x \<noteq> NInf" by (simp add: ex_rets_def)
  have i: "2 < length ex_rets" and def: "\<not> isna (snd (ex_rets ! 2))" by (simp_all add: ex_rets_def)
  have floor: "\<forall>j \<le> 2. isna (snd (ex_rets ! j)) \<or> fl_le (Fin (- 1)) (snd (returns ex_res_dear ! j))"
  proof (intro allI impI)
    fix j :: nat assume "j \<le> 2"
    then consider "j = 0" | "j = 1" | "j = 2" by linarith
    then show "isna (snd (ex_rets ! j)) \<or> fl_le (Fin (- 1)) (snd (returns ex_res_dear ! j))"
      by cases (simp_all add: ex_res_dear_def)
  qed
  from run_backtest_cost_monotone [OF runA runB le finp ex_ret finr i def] floor runA runB
  show ?thesis by simp
qed

text \<open>
  C7 as stated fails in its last part: with the return column present and defined, a
  position series whose labels repeat (and differ from the frame's index) makes
  \<^verbatim>\<open>position.reindex\<close> raise, so no result is returned.
\<close>

theorem run_backtest_duplicate_labels_counterexample:
  "\<not> missing_returns ex_df \<and>
   run_backtest ex_df dup_pos None 1 =
     Inl (ValueError ''cannot reindex on an axis with duplicate labels'')"
  by (simp add: bt_defs ex_df_def ex_rets_def dup_pos_def missing_returns_def)

text \<open>
  C7, amended.  \<^verbatim>\<open>run_backtest\<close> fails with the missing-data error (the ValueError of
  its guard) if and only if the simple-return column is absent or every cell of it is
  NaN.  Otherwise it returns a result when the labels of the position series are
  pairwise different or equal the frame's index, and fails with the reindexing
  ValueError when they are not.
\<close>

theorem run_backtest_error_iff:
  "(run_backtest df posn cost starting_equity = Inl MissingData \<longleftrightarrow> missing_returns df) \<and>
   (\<not> missing_returns df \<and> (map fst posn = df_index df \<or> distinct (map fst posn))
      \<longrightarrow> (\<exists>r. run_backtest df posn cost starting_equity = Inr r)) \<and>
   (\<not> missing_returns df \<and> \<not> (map fst posn = df_index df \<or> distinct (map fst posn))
      \<longrightarrow> run_backtest df posn cost starting_equity =
            Inl (ValueError ''cannot reindex on an axis with duplicate labels''))"
proof (cases "missing_returns df")
  case True
  then show ?thesis by (simp add: run_backtest_missing)
next
  case False
  show ?thesis
  proof (cases "map fst posn = df_index df \<or> distinct (map fst posn)")
    case True
    then obtain pos0 where "reindex posn (df_index df) = Inr pos0"
      by (simp add: reindex_cases)
    from run_backtest_present(2) [OF False this] obtain r
      where "run_backtest df posn cost starting_equity = Inr r" by blast
    with False True show ?thesis by auto
  next
    case nd: False
    then have "reindex posn (df_index df) =
        Inl (ValueError ''cannot reindex on an axis with duplicate labels'')"
      by (simp add: reindex_cases)
    from run_backtest_present(1) [OF False this] False nd show ?thesis
      by (simp add: MissingData_def)
  qed
qed

theorem run_backtest_error_iff_witness:
  "run_backtest (frame_of ''Close'' [((2020, 1, 1), Fin 1)]) ex_pos ex_cost 1 = Inl MissingData \<and>
   run_backtest (frame_of ''RetSimple'' [((2020, 1, 1), NaN), ((2020, 1, 2), NaN)]) ex_pos ex_cost 1
     = Inl MissingData \<and>
   \<not> missing_returns ex_df \<and> distinct (map fst ex_pos) \<and>
   (\<exists>r. run_backtest ex_df ex_pos ex_cost 1 = Inr r) \<and>
   \<not> distinct (map fst dup_pos) \<and> map fst dup_pos \<noteq> df_index ex_df \<and>
   run_backtest ex_df dup_pos ex_cost 1 =
     Inl (ValueError ''cannot reindex on an axis with duplicate labels'')"
proof -
  have m1: "missing_returns (frame_of ''Close'' [((2020, 1, 1), Fin 1)])"
    by (simp add: missing_returns_def frame_of_def df_get_def)
  have m2: "missing_returns (frame_of ''RetSimple'' [((2020, 1, 1), NaN), ((2020, 1, 2), NaN)])"
    by (simp add: missing_returns_def frame_of_def df_get_def)
  have m3: "\<not> missing_returns ex_df"
    by (simp add: missing_returns_def frame_of_def df_get_def ex_df_def ex_rets_def)
  have d: "distinct (map fst ex_pos)" by (simp add: ex_pos_def)
  have nd: "\<not> distinct (map fst dup_pos)" "map fst dup_pos \<noteq> df_index ex_df"
    by (simp_all add: dup_pos_def ex_df_def ex_rets_def frame_of_def df_index_def)
  show ?thesis
    using run_backtest_error_iff [of "frame_of ''Close'' [((2020, 1, 1), Fin 1)]" ex_pos ex_cost 1]
      run_backtest_error_iff [of "frame_of ''RetSimple'' [((2020, 1, 1), NaN), ((2020, 1, 2), NaN)]"
        ex_pos ex_cost 1]
      run_backtest_error_iff [of ex_df ex_pos ex_cost 1]
      run_backtest_error_iff [of ex_df dup_pos ex_cost 1]
      m1 m2 m3 d nd
    by blast
qed

text \<open>
  C10.  Whenever \<^verbatim>\<open>run_backtest\<close> returns, the equity, returns, position, turnover and
  costs series all carry exactly the labels of the frame, in the frame's order,
  whatever the labels of the supplied position series.
\<close>

theorem run_backtest_aligned:
  assumes "run_backtest df posn cost starting_equity = Inr r"
  shows "map fst (equity r) = df_index df \<and> map fst (returns r) = df_index df \<and>
         map fst (position r) = df_index df \<and> map fst (turnover r) = df_index df \<and>
         map fst (costs r) = df_index df"
  using run_backtest_fst [OF assms] by simp

text \<open>A position series on other dates, in another order, than the frame's.\<close>

theorem run_backtest_aligned_witness:
  "run_backtest ex_df [((2020, 1, 2), Fin 1), ((2019, 12, 31), Fin (- 1))] ex_cost 1 =
     Inr \<lparr>equity = [((2020, 1, 1), Fin 1), ((2020, 1, 2), Fin (9997 / 10000)),
                    ((2020, 1, 3), Fin (97940609 / 100000000))],
          returns = [((2020, 1, 1), Fin 0), ((2020, 1, 2), Fin (- (3 / 10000))),
                     ((2020, 1, 3), Fin (- (203 / 10000)))],
          position = [((2020, 1, 1), Fin 0), ((2020, 1, 2), Fin 1), ((2020, 1, 3), Fin 0)],
          turnover = [((2020, 1, 1), Fin 0), ((2020, 1, 2), Fin 1), ((2020, 1, 3), Fin 1)],
          costs = [((2020, 1, 1), Fin 0), ((2020, 1, 2), Fin (3 / 10000)),
                   ((2020, 1, 3), Fin (3 / 10000))]\<rparr> \<and>
   df_index ex_df = [(2020, 1, 1), (2020, 1, 2), (2020, 1, 3)]"
proof -
  have run: "run_backtest ex_df [((2020, 1, 2), Fin 1), ((2019, 12, 31), Fin (- 1))] ex_cost 1 =
     Inr \<lparr>equity = [((2020, 1, 1), Fin 1), ((2020, 1, 2), Fin (9997 / 10000)),
                    ((2020, 1, 3), Fin (97940609 / 100000000))],
          returns = [((2020, 1, 1), Fin 0), ((2020, 1, 2), Fin (- (3 / 10000))),
                     ((2020, 1, 3), Fin (- (203 / 10000)))],
          position = [((2020, 1, 1), Fin 0), ((2020, 1, 2), Fin 1), ((2020, 1, 3), Fin 0)],
          turnover = [((2020, 1, 1), Fin 0), ((2020, 1, 2), Fin 1), ((2020, 1, 3), Fin 1)],
          costs = [((2020, 1, 1), Fin 0), ((2020, 1, 2), Fin (3 / 10000)),
                   ((2020, 1, 3), Fin (3 / 10000))]\<rparr>"
    by (simp add: bt_defs ex_df_def ex_rets_def ex_cost_def)
  from run_backtest_aligned [OF run] run show ?thesis by simp
qed

section \<open>Claims about the reference strategy\<close>

text \<open>
  C9.  Whenever \<^verbatim>\<open>ma_cross\<close> returns a position series (the frame has a Close column
  and the windows are not negative), the series is on the frame's index, every value
  is exactly -1, 0 or 1 (so none is undefined), and every bar before the slow window is
  complete is 0.
\<close>

theorem ma_cross_values:
  assumes "ma_cross df params = Inr pos"
  shows "map fst pos = df_index df \<and>
         (\<forall>x \<in> set pos. snd x = Fin (- 1) \<or> snd x = Fin 0 \<or> snd x = Fin 1) \<and>
         (\<forall>i < length pos. int i + 1 < py_int (params_get params ''slow'' 100)
            \<longrightarrow> snd (pos ! i) = Fin 0)"
proof -
  let ?nz = "params_get params ''neutral_zone'' 0 / 10000"
  from assms obtain close ma_f ma_s where
    close: "df_get df ''Close'' = Some close" and
    f: "rolling_mean (py_int (params_get params ''fast'' 20)) (map snd close) = Inr ma_f" and
    s: "rolling_mean (py_int (params_get params ''slow'' 100)) (map snd close) = Inr ma_s" and
    pos: "pos = zip (df_index df) (map (fl_clip (- 1) 1)
       (map (\<lambda>v. if isna v then Fin 0 else v) (ffill (map (\<lambda>v. if v = Fin 0 then NaN else v)
         (mask_s (mask_s (map (\<lambda>_. Fin 0) close)
            (map (\<lambda>x. fl_less (Fin ?nz) x)
               (map (\<lambda>(f, s). fl_div (fl_sub f s) s) (zip ma_f ma_s))) (Fin 1))
            (map (\<lambda>x. fl_less x (Fin (- ?nz)))
               (map (\<lambda>(f, s). fl_div (fl_sub f s) s) (zip ma_f ma_s))) (Fin (- 1)))))))"
    by (rule ma_cross_InrD)
  let ?spread = "map (\<lambda>(f, s). fl_div (fl_sub f s) s) (zip ma_f ma_s)"
  let ?buy = "map (\<lambda>x. fl_less (Fin ?nz) x) ?spread"
  let ?sell = "map (\<lambda>x. fl_less x (Fin (- ?nz))) ?spread"
  let ?pos2 = "mask_s (mask_s (map (\<lambda>_. Fin 0) close) ?buy (Fin 1)) ?sell (Fin (- 1))"
  let ?pos3 = "map (\<lambda>v. if v = Fin 0 then NaN else v) ?pos2"
  let ?pos4 = "map (\<lambda>v. if isna v then Fin 0 else v) (ffill ?pos3)"
  let ?n = "length (df_index df)"
  have Lc: "length close = ?n" using fst_df_get [OF close] by (metis length_map)
  have Lf: "length ma_f = ?n" and Ls: "length ma_s = ?n"
    using length_rolling_mean [OF f] length_rolling_mean [OF s] Lc by simp_all
  have Lsp: "length ?spread = ?n" by (simp add: Lf Ls)
  have L2: "length ?pos2 = ?n"
    unfolding length_mask by (simp add: Lc Lf Ls)
  have L4: "length ?pos4 = ?n" by (simp only: length_map ffill_def length_ffill_from L2)
  have idx: "map fst pos = df_index df"
    unfolding pos using L4 by (simp only: map_fst_zip length_map)
  have Lp: "length pos = ?n" using idx by (metis length_map)
  have snd_pos: "map snd pos = map (fl_clip (- 1) 1) ?pos4"
    unfolding pos using L4 by (simp only: map_snd_zip length_map)
  text \<open>The values: 0, 1 or -1 after the masks; NaN, 1 or -1 before the fill.\<close>
  have S2: "set ?pos2 \<subseteq> {Fin (- 1), Fin 1, Fin 0}"
  proof -
    have "set (mask_s (map (\<lambda>_. Fin 0) close) ?buy (Fin 1)) \<subseteq> {Fin 1, Fin 0}"
      using set_mask [of "map (\<lambda>_. Fin 0) close" ?buy "Fin 1"] by auto
    with set_mask [of "mask_s (map (\<lambda>_. Fin 0) close) ?buy (Fin 1)" ?sell "Fin (- 1)"]
    show ?thesis by blast
  qed
  have S3: "set ?pos3 \<subseteq> {NaN, Fin (- 1), Fin 1}" using S2 by auto
  have "set (ffill ?pos3) \<subseteq> {NaN, Fin (- 1), Fin 1}"
    using set_ffill_from [of NaN ?pos3] S3 unfolding ffill_def by blast
  then have S4: "set ?pos4 \<subseteq> {Fin 0, Fin (- 1), Fin 1}" by auto
  have vals: "\<forall>x \<in> set pos. snd x = Fin (- 1) \<or> snd x = Fin 0 \<or> snd x = Fin 1"
  proof
    fix x assume "x \<in> set pos"
    then have "snd x \<in> set (map snd pos)" by simp
    then have "snd x \<in> fl_clip (- 1) 1 ` set ?pos4" by (simp only: snd_pos set_map)
    with S4 show "snd x = Fin (- 1) \<or> snd x = Fin 0 \<or> snd x = Fin 1" by auto
  qed
  have warm: "snd (pos ! i) = Fin 0"
    if i: "i < length pos" and w: "int i + 1 < py_int (params_get params ''slow'' 100)" for i
  proof -
    from i Lp have i': "i < ?n" by simp
    have P3: "?pos3 ! j = NaN" if "j \<le> i" for j
    proof -
      from that i' have j: "j < ?n" by simp
      from that w have "int j + 1 < py_int (params_get params ''slow'' 100)" by simp
      from rolling_mean_warmup [OF s _ this] j Lc have "ma_s ! j = NaN" by simp
      with j Lf Ls have sp: "?spread ! j = NaN" by (simp add: fl_div_NaN)
      have "?pos2 ! j = Fin 0"
        using j Lc Lf Ls sp by (simp add: mask_nth length_mask fl_less_NaN)
      with j L2 show ?thesis by simp
    qed
    have "ffill ?pos3 ! i = NaN"
      unfolding ffill_def using i' L2 P3 by (intro ffill_from_prefix) simp_all
    then have "?pos4 ! i = Fin 0"
      using i' L2 by (simp add: ffill_def length_ffill_from)
    moreover have "snd (pos ! i) = map snd pos ! i" using i by simp
    ultimately show ?thesis using i' L4 by (simp only: snd_pos nth_map fl_clip.simps) simp
  qed
  from idx vals warm show ?thesis by blast
qed

theorem ma_cross_values_witness:
  "ma_cross px_df px_params = Inr px_pos \<and> map fst px_pos = df_index px_df \<and>
   snd (px_pos ! 1) = Fin 0 \<and> int 1 + 1 < py_int (params_get px_params ''slow'' 100)"
proof -
  have run: "ma_cross px_df px_params = Inr px_pos"
    by (simp add: ma_defs px_df_def px_params_def px_pos_def upt_rec)
  have "int 1 + 1 < py_int (params_get px_params ''slow'' 100)" "1 < length px_pos"
    by (simp_all add: px_params_def params_get_def py_int_def px_pos_def)
  with ma_cross_values [OF run] run show ?thesis by simp
qed

section \<open>Claims about the validation layer\<close>

text \<open>
  C8 as stated fails for the empty data window: with candidates to run and a frame
  without rows, the first candidate's backtest raises the missing-data ValueError, and
  that error, not the failed assertion, leaves \<^verbatim>\<open>grid_search\<close>.
\<close>

theorem grid_search_empty_window_counterexample:
  "candidates px_grid = [[(''fast'', 1), (''slow'', 3)], [(''fast'', 2), (''slow'', 3)]] \<and>
   rows empty_df = [] \<and>
   grid_search empty_df ma_cross px_grid free_cost = Inl MissingData \<and>
   MissingData \<noteq> AssertionError"
  by (simp add: px_cands grid_search_def evaluate_def ma_defs run_backtest_def empty_df_def
        MissingData_def)

text \<open>
  C8, amended.  The grid has no candidate exactly when some name has no candidate
  value, and then \<^verbatim>\<open>grid_search\<close> fails with the assertion error.  A candidate whose
  strategy, backtest or performance computation raises, all candidates before it
  having run, ends the search with that error.  When every candidate runs and no CAGR
  is NaN, the result is a candidate of the largest CAGR with its performance, the first
  such in iteration order.
\<close>

theorem grid_search_result:
  "(candidates g = [] \<longleftrightarrow> [] \<in> snd ` set g) \<and>
   (candidates g = [] \<longrightarrow> grid_search df strat g cost = Inl AssertionError) \<and>
   (\<forall>xs c ys e. candidates g = xs @ c # ys \<and>
        (\<forall>x \<in> set xs. \<exists>p. evaluate df strat cost x = Inr p) \<and>
        evaluate df strat cost c = Inl e
      \<longrightarrow> grid_search df strat g cost = Inl e) \<and>
   (candidates g \<noteq> [] \<and>
    (\<forall>c \<in> set (candidates g). \<exists>p. evaluate df strat cost c = Inr p \<and> cagr p \<noteq> NaN)
      \<longrightarrow> (\<exists>i p. grid_search df strat g cost = Inr (candidates g ! i, p) \<and>
                 first_best (evaluate df strat cost) (candidates g) i p))"
proof (intro conjI allI impI)
  show "candidates g = [] \<longleftrightarrow> [] \<in> snd ` set g" by (rule candidates_empty)
next
  assume "candidates g = []"
  then show "grid_search df strat g cost = Inl AssertionError" by (simp add: grid_search_def)
next
  fix xs c ys e
  assume "candidates g = xs @ c # ys \<and>
        (\<forall>x \<in> set xs. \<exists>p. evaluate df strat cost x = Inr p) \<and>
        evaluate df strat cost c = Inl e"
  then show "grid_search df strat g cost = Inl e"
    by (simp add: grid_search_def grid_loop_error)
next
  assume "candidates g \<noteq> [] \<and>
    (\<forall>c \<in> set (candidates g). \<exists>p. evaluate df strat cost c = Inr p \<and> cagr p \<noteq> NaN)"
  then obtain i p where
    "grid_loop df strat cost (candidates g) None = Inr (Some (candidates g ! i, p))"
    "first_best (evaluate df strat cost) (candidates g) i p"
    using grid_loop_first_best [of "candidates g" df strat cost] by blast
  then show "\<exists>i p. grid_search df strat g cost = Inr (candidates g ! i, p) \<and>
                 first_best (evaluate df strat cost) (candidates g) i p"
    by (auto simp: grid_search_def)
qed

theorem grid_search_result_witness:
  "grid_search px_df ma_cross void_grid free_cost = Inl AssertionError \<and>
   grid_search px_df ma_cross px_grid free_cost = Inr (candidates px_grid ! 0, \<lparr>cagr = Fin 0\<rparr>) \<and>
   first_best (evaluate px_df ma_cross free_cost) (candidates px_grid) 0 \<lparr>cagr = Fin 0\<rparr> \<and>
   grid_search empty_df ma_cross px_grid free_cost = Inl MissingData"
proof -
  have v: "[] \<in> snd ` set void_grid" by (simp add: void_grid_def)
  have a: "grid_search px_df ma_cross void_grid free_cost = Inl AssertionError"
    using grid_search_result [of void_grid px_df ma_cross free_cost] v by blast
  have ne: "candidates px_grid \<noteq> []" by (simp add: px_cands)
  from grid_search_result [of px_grid px_df ma_cross free_cost] ne px_evals
  obtain i p where
    r: "grid_search px_df ma_cross px_grid free_cost = Inr (candidates px_grid ! i, p)" and
    fb: "first_best (evaluate px_df ma_cross free_cost) (candidates px_grid) i p"
    by blast
  have "i = 0"
  proof (rule ccontr)
    assume "i \<noteq> 0"
    with fb have "fl_less (Fin 0) (cagr p)" and "i < 2"
      unfolding first_best_def using px_eval1 by (auto simp: px_cands)
    with \<open>i \<noteq> 0\<close> have "i = 1" by simp
    with fb have "p = \<lparr>cagr = Fin 0\<rparr>" unfolding first_best_def using px_eval2 by (simp add: px_cands)
    with \<open>fl_less (Fin 0) (cagr p)\<close> show False by simp
  qed
  with fb have p: "p = \<lparr>cagr = Fin 0\<rparr>" unfolding first_best_def using px_eval1 by (simp add: px_cands)
  have e: "evaluate empty_df ma_cross free_cost [(''fast'', 1), (''slow'', 3)] = Inl MissingData"
    by (simp add: evaluate_def ma_defs run_backtest_def empty_df_def)
  have c: "candidates px_grid = [] @ [(''fast'', 1), (''slow'', 3)] # [[(''fast'', 2), (''slow'', 3)]]"
    by (simp add: px_cands)
  have n: "\<forall>x \<in> set []. \<exists>p. evaluate empty_df ma_cross free_cost x = Inr p" by simp
  have m: "grid_search empty_df ma_cross px_grid free_cost = Inl MissingData"
    using grid_search_result [of px_grid empty_df ma_cross free_cost] c n e by blast
  from a r fb p \<open>i = 0\<close> m show ?thesis by simp
qed








end
